theory Spec2Isabelle
  imports Complex_Main "HOL-Library.Log_Nat"
begin

section \<open>JavaScript values used by watch-scroll.js\<close>

text \<open>
  The values that the fields of the class hold: \<open>undefined\<close>, \<open>null\<close>, booleans, numbers,
  strings and functions (a function is known by an identifier only). A number is a finite
  double, given by its exact value. Strict equality \<open>===\<close> on these values is equality of
  the model values.
\<close>

datatype jsval =
    JUndefined
  | JNull
  | JBool bool
  | JNum rat
  | JStr string
  | JFun nat

text \<open>The \<open>typeof\<close> operator.\<close>

fun typeof :: "jsval \<Rightarrow> string" where
  "typeof JUndefined = ''undefined''"
| "typeof JNull = ''object''"
| "typeof (JBool b) = ''boolean''"
| "typeof (JNum n) = ''number''"
| "typeof (JStr s) = ''string''"
| "typeof (JFun f) = ''function''"

text \<open>Truthiness, as \<open>if ( v )\<close>, \<open>! v\<close>, \<open>v ? true : false\<close> and \<open>||\<close> use it.\<close>

fun truthy :: "jsval \<Rightarrow> bool" where
  "truthy JUndefined = False"
| "truthy JNull = False"
| "truthy (JBool b) = b"
| "truthy (JNum n) = (n \<noteq> 0)"
| "truthy (JStr s) = (s \<noteq> [])"
| "truthy (JFun f) = True"

text \<open>
  \<open>ToNumber\<close> on a boolean, which the relational operators \<open><\<close> and \<open>>\<close> apply when
  a boolean is compared with a number.
\<close>

definition toNumber_bool :: "bool \<Rightarrow> rat" where
  "toNumber_bool b = (if b then 1 else 0)"

section \<open>Double-precision arithmetic\<close>

text \<open>
  JavaScript numbers are IEEE 754 binary64 values. A finite one is given by its exact
  value, a rational; the result of an addition or a division can also be an infinity.
  (No operation of the program yields NaN from finite operands, and the two zeros
  compare alike.)
\<close>

datatype double = Finite rat | PlusInfinity | MinusInfinity

definition pow2 :: "int \<Rightarrow> rat" where
  "pow2 k = (if 0 \<le> k then 2 ^ nat k else 1 / 2 ^ nat (- k))"

text \<open>For \<open>x > 0\<close>, the integer \<open>e\<close> with \<open>2 ^ e \<le> x < 2 ^ (e + 1)\<close>.\<close>

definition floorLog2 :: "rat \<Rightarrow> int" where
  "floorLog2 x =
     (if 1 \<le> x then int (floorlog 2 (nat \<lfloor>x\<rfloor>)) - 1
      else - int (floorlog 2 (nat (\<lceil>1 / x\<rceil> - 1))))"

text \<open>The nearest integer, the even one of the two when they are equally near.\<close>

definition roundHalfEven :: "rat \<Rightarrow> int" where
  "roundHalfEven n =
     (let f = \<lfloor>n\<rfloor>; d = n - of_int f
      in if d < 1 / 2 then f else if 1 / 2 < d then f + 1 else if even f then f else f + 1)"

text \<open>
  Rounding of an exact result to binary64, to nearest and ties to even: 53 significant
  bits, the least exponent -1022 (below it the spacing stays \<open>2 ^ -1074\<close>), and an infinity
  when the rounded magnitude reaches \<open>2 ^ 1024\<close>.
\<close>

definition roundDouble :: "rat \<Rightarrow> double" where
  "roundDouble x =
     (if x = 0 then Finite 0
      else (let e = max (floorLog2 \<bar>x\<bar>) (- 1022);
                ulp = pow2 (e - 52);
                y = of_int (roundHalfEven (x / ulp)) * ulp
            in if 2 ^ 1024 \<le> y then PlusInfinity
               else if y \<le> - (2 ^ 1024) then MinusInfinity
               else Finite y))"

text \<open>\<open>d / 2\<close>, and the comparisons \<open>d >= r\<close> and \<open>d <= r\<close> of a double with a finite one.\<close>

fun halve :: "double \<Rightarrow> double" where
  "halve (Finite s) = roundDouble (s / 2)"
| "halve PlusInfinity = PlusInfinity"
| "halve MinusInfinity = MinusInfinity"

fun double_ge :: "double \<Rightarrow> rat \<Rightarrow> bool" where
  "double_ge (Finite x) r = (r \<le> x)"
| "double_ge PlusInfinity r = True"
| "double_ge MinusInfinity r = False"

fun double_le :: "double \<Rightarrow> rat \<Rightarrow> bool" where
  "double_le (Finite x) r = (x \<le> r)"
| "double_le PlusInfinity r = False"
| "double_le MinusInfinity r = True"

section \<open>The data of the class\<close>

text \<open>The result of \<open>getBoundingClientRect()\<close>: four finite doubles.\<close>

record rect =
  rect_top :: rat
  rect_right :: rat
  rect_bottom :: rat
  rect_left :: rat

text \<open>
  \<open>this.status\<close> (lines 47 to 54): six properties, enumerated by \<open>for .. in\<close> in the order
  in which the constructor writes them.
\<close>

record status =
  status_top :: jsval
  status_right :: jsval
  status_bottom :: jsval
  status_left :: jsval
  status_centerIsVisible :: jsval
  status_visibility :: jsval

definition status_keys :: "string list" where
  "status_keys = [''top'', ''right'', ''bottom'', ''left'', ''centerIsVisible'', ''visibility'']"

text \<open>
  \<open>this.status[side]\<close>: the property of that name, \<open>undefined\<close> for a name that the status
  object does not have (names inherited from \<open>Object.prototype\<close> are left out of the model).
\<close>

definition status_get :: "status \<Rightarrow> string \<Rightarrow> jsval" where
  "status_get st side =
     (if side = ''top'' then status_top st
      else if side = ''right'' then status_right st
      else if side = ''bottom'' then status_bottom st
      else if side = ''left'' then status_left st
      else if side = ''centerIsVisible'' then status_centerIsVisible st
      else if side = ''visibility'' then status_visibility st
      else JUndefined)"

text \<open>
  The \<open>conditions\<close> argument: a primitive value (the string \<open>"all"\<close>, \<open>undefined\<close>, ...) or an
  object, given by its enumerable properties in enumeration order.
\<close>

datatype conditions =
    CondVal jsval
  | CondObj "(string \<times> jsval) list"

fun typeof_conditions :: "conditions \<Rightarrow> string" where
  "typeof_conditions (CondVal v) = typeof v"
| "typeof_conditions (CondObj props) = ''object''"

fun truthy_conditions :: "conditions \<Rightarrow> bool" where
  "truthy_conditions (CondVal v) = truthy v"
| "truthy_conditions (CondObj props) = True"

text \<open>The names that \<open>for ( let side in this.conditions )\<close> enumerates; none for \<open>null\<close>.\<close>

fun conditions_keys :: "conditions \<Rightarrow> string list" where
  "conditions_keys (CondVal v) = []"
| "conditions_keys (CondObj props) = map fst props"

text \<open>\<open>this.conditions[side]\<close>.\<close>

fun conditions_get :: "conditions \<Rightarrow> string \<Rightarrow> jsval" where
  "conditions_get (CondVal v) side = JUndefined"
| "conditions_get (CondObj props) side =
     (case map_of props side of None \<Rightarrow> JUndefined | Some v \<Rightarrow> v)"

text \<open>
  The object itself. \<open>element\<close> is \<open>None\<close> when the constructor was given no element
  (\<open>undefined\<close> or \<open>null\<close>), and the handle of a DOM node otherwise.
\<close>

record watchScroll =
  element :: "nat option"
  status :: status
  conditionsMatch :: jsval
  conditions :: conditions
  callbackTrue :: jsval
  callbackFalse :: jsval
  onEveryScrollEvent :: jsval

text \<open>
  The host environment: the viewport's size, the geometry of each DOM node, and which
  listener interface \<open>window\<close> offers.
\<close>

record window =
  innerWidth :: rat
  innerHeight :: rat
  getBoundingClientRect :: "nat \<Rightarrow> rect"
  addEventListener :: bool
  attachEvent :: bool

text \<open>
  What a method does to the outside: it registers or removes the scroll and resize
  handlers, or it calls one of the two callbacks, with the event and \<open>this.status\<close>.
  A callback is taken not to write to the object.
\<close>

datatype effect =
    AddListeners
  | AttachEvents
  | RemoveListeners
  | CallTrue jsval jsval status
  | CallFalse jsval jsval status

datatype error = TypeError

datatype ret = RetThis | RetUndefined

section \<open>checkPosition\<close>

text \<open>
  Lines 235 to 256: the center, the five flags, then the classification. The center is
  computed in doubles: each sum is rounded, then halved. The second branch of the
  classification reads the flags that were just stored, which are booleans, and compares
  them with numbers.
\<close>

definition computeStatus :: "rect \<Rightarrow> window \<Rightarrow> status" where
  "computeStatus elementPosition w =
     (let centerPoint_x =
            halve (roundDouble (rect_left elementPosition + rect_right elementPosition));
          centerPoint_y =
            halve (roundDouble (rect_top elementPosition + rect_bottom elementPosition));
          t = (rect_top elementPosition \<ge> 0 \<and> rect_top elementPosition \<le> innerHeight w);
          b = (rect_bottom elementPosition \<ge> 0 \<and> rect_bottom elementPosition \<le> innerHeight w);
          r = (rect_right elementPosition \<ge> 0 \<and> rect_right elementPosition \<le> innerWidth w);
          l = (rect_left elementPosition \<ge> 0 \<and> rect_left elementPosition \<le> innerWidth w);
          c = (double_ge centerPoint_x 0 \<and> double_ge centerPoint_y 0
               \<and> double_le centerPoint_x (innerWidth w)
               \<and> double_le centerPoint_y (innerHeight w));
          v = (if t \<and> b \<and> l \<and> r then ''full''
               else if toNumber_bool t < 0 \<and> toNumber_bool b > innerHeight w
                       \<and> toNumber_bool l < 0 \<and> toNumber_bool r > innerWidth w then ''overflow''
               else if (t \<or> b) \<and> (l \<or> r) then ''partial''
               else ''hidden'')
      in \<lparr> status_top = JBool t, status_right = JBool r, status_bottom = JBool b,
           status_left = JBool l, status_centerIsVisible = JBool c,
           status_visibility = JStr v \<rparr>)"

text \<open>Lines 259 to 264: is some property of the status different from the previous one?\<close>

fun statusLoop :: "string list \<Rightarrow> status \<Rightarrow> status \<Rightarrow> bool" where
  "statusLoop [] previousStatus st = False"
| "statusLoop (side # rest) previousStatus st =
     (if status_get previousStatus side \<noteq> status_get st side then True
      else statusLoop rest previousStatus st)"

text \<open>
  Lines 266 to 272: the loop over the properties of the conditions object. The result is
  the pair of the local variables \<open>(conditionsMatch, statusChange)\<close>.
\<close>

fun conditionsLoop :: "string list \<Rightarrow> conditions \<Rightarrow> status \<Rightarrow> bool \<times> bool" where
  "conditionsLoop [] conds st = (True, False)"
| "conditionsLoop (side # rest) conds st =
     (if (JStr ''hidden'' = conditions_get conds side \<and> JBool False \<noteq> status_get st side)
         \<or> (JStr ''hidden'' \<noteq> conditions_get conds side
            \<and> status_get st side \<noteq> JBool (if truthy (conditions_get conds side) then True else False))
      then (False, True)
      else conditionsLoop rest conds st)"

text \<open>Lines 258 to 273: the local variables \<open>(conditionsMatch, statusChange)\<close>.\<close>

definition matching :: "watchScroll \<Rightarrow> status \<Rightarrow> status \<Rightarrow> bool \<times> bool" where
  "matching this previousStatus st =
     (if JStr ''all'' = conditionsMatch this \<or> CondVal (JStr ''all'') = conditions this
      then (True, statusLoop status_keys previousStatus st)
      else if ''object'' = typeof_conditions (conditions this)
      then conditionsLoop (conditions_keys (conditions this)) (conditions this) st
      else (True, False))"

text \<open>Line 274: may a callback run?\<close>

definition gate :: "watchScroll \<Rightarrow> bool \<Rightarrow> bool \<Rightarrow> bool" where
  "gate this cm statusChange =
     (((''boolean'' = typeof (conditionsMatch this) \<or> JNull = conditionsMatch this)
        \<and> JBool cm \<noteq> conditionsMatch this)
      \<or> truthy (onEveryScrollEvent this)
      \<or> (CondVal (JStr ''all'') = conditions this \<and> statusChange))"

text \<open>
  The whole method. The first statement calls a method of \<open>this.element\<close>, a TypeError
  when there is no element; nothing has been written by then. \<open>previousStatus\<close> is the
  copy of the status that the JSON round trip of line 234 makes, which is the same
  status, as its fields hold \<open>null\<close>, booleans and strings only. The status is written
  whether or not a callback runs.
\<close>

definition checkPosition :: "window \<Rightarrow> jsval \<Rightarrow> watchScroll \<Rightarrow> error + (watchScroll \<times> effect list)" where
  "checkPosition w event this =
     (case element this of
        None \<Rightarrow> Inl TypeError
      | Some el \<Rightarrow>
          (let previousStatus = status this;
               st = computeStatus (getBoundingClientRect w el) w;
               this1 = this\<lparr> status := st \<rparr>;
               (cm, statusChange) = matching this1 previousStatus st
           in if gate this1 cm statusChange
              then (let this2 = (if JStr ''all'' \<noteq> conditionsMatch this1
                                 then this1\<lparr> conditionsMatch := JBool cm \<rparr> else this1)
                    in if truthy (conditionsMatch this2) \<and> ''function'' = typeof (callbackTrue this2)
                       then Inr (this2, [CallTrue (callbackTrue this2) event st])
                       else if \<not> truthy (conditionsMatch this2) \<and> ''function'' = typeof (callbackFalse this2)
                       then Inr (this2, [CallFalse (callbackFalse this2) event st])
                       else Inr (this2, []))
              else Inr (this1, [])))"

section \<open>Listeners\<close>

text \<open>Lines 186 to 202.\<close>

definition setupEvents :: "window \<Rightarrow> effect list" where
  "setupEvents w =
     (if addEventListener w then [AddListeners]
      else if attachEvent w then [AttachEvents]
      else [])"

text \<open>
  Lines 213 to 221. The second branch calls \<open>window.dettachEvent\<close>, which no window has.
\<close>

definition cancel :: "window \<Rightarrow> watchScroll \<Rightarrow> error + (watchScroll \<times> effect list)" where
  "cancel w this =
     (if addEventListener w then Inr (this, [RemoveListeners])
      else if attachEvent w then Inl TypeError
      else Inr (this, []))"

section \<open>Constructor, on, always\<close>

text \<open>
  The three end alike (lines 96 to 105, 131 to 140, 161 to 170): a bare \<open>return;\<close>
  without an element; register the handlers and check the position when there are conditions
  and a callback; \<open>return this;\<close>.
\<close>

definition startWatching :: "window \<Rightarrow> watchScroll \<Rightarrow> error + (watchScroll \<times> effect list \<times> ret)" where
  "startWatching w this =
     (if element this = None then Inr (this, [], RetUndefined)
      else if truthy_conditions (conditions this)
              \<and> (truthy (callbackTrue this) \<or> truthy (callbackFalse this))
      then (case checkPosition w JUndefined this of
              Inl e \<Rightarrow> Inl e
            | Inr (this', effs) \<Rightarrow> Inr (this', setupEvents w @ effs, RetThis))
      else Inr (this, [], RetThis))"

text \<open>Lines 39 to 94: the fields as the constructor writes them.\<close>

definition fields :: "nat option \<Rightarrow> conditions \<Rightarrow> jsval \<Rightarrow> jsval \<Rightarrow> jsval \<Rightarrow> watchScroll" where
  "fields el conds cbTrue cbFalse every =
     \<lparr> element = el,
       status = \<lparr> status_top = JNull, status_right = JNull, status_bottom = JNull,
                  status_left = JNull, status_centerIsVisible = JNull,
                  status_visibility = JNull \<rparr>,
       conditionsMatch = (if ''string'' = typeof_conditions conds then JStr ''all'' else JNull),
       conditions = conds,
       callbackTrue = cbTrue,
       callbackFalse = cbFalse,
       onEveryScrollEvent = every \<rparr>"

text \<open>
  \<open>new watchScroll( ... )\<close>. In a class constructor both the bare \<open>return;\<close> of line 97 and
  the \<open>return this;\<close> of line 105 make \<open>new\<close> yield the instance.
\<close>

definition constructor :: "window \<Rightarrow> nat option \<Rightarrow> conditions \<Rightarrow> jsval \<Rightarrow> jsval \<Rightarrow> jsval
    \<Rightarrow> error + (watchScroll \<times> effect list \<times> ret)" where
  "constructor w el conds cbTrue cbFalse every =
     (case startWatching w (fields el conds cbTrue cbFalse every) of
        Inl e \<Rightarrow> Inl e
      | Inr (this', effs, r) \<Rightarrow> Inr (this', effs, RetThis))"

definition on :: "window \<Rightarrow> conditions \<Rightarrow> jsval \<Rightarrow> jsval \<Rightarrow> jsval \<Rightarrow> watchScroll
    \<Rightarrow> error + (watchScroll \<times> effect list \<times> ret)" where
  "on w conds cbTrue cbFalse every this =
     startWatching w
       (this\<lparr> conditionsMatch := (if ''string'' = typeof_conditions conds then JStr ''all'' else JNull),
              conditions := conds,
              callbackTrue := cbTrue,
              callbackFalse := cbFalse,
              onEveryScrollEvent := every \<rparr>)"

definition always :: "window \<Rightarrow> jsval \<Rightarrow> watchScroll \<Rightarrow> error + (watchScroll \<times> effect list \<times> ret)" where
  "always w cbTrue this =
     startWatching w
       (this\<lparr> conditionsMatch := JStr ''all'',
              conditions := CondVal (JStr ''all''),
              callbackTrue := cbTrue \<rparr>)"

section \<open>Concrete inputs\<close>

text \<open>
  A window of the given width and height that offers \<open>addEventListener\<close> and in which
  every node has the given bounding box; and a bounding box from its four coordinates.
\<close>

definition windowWith :: "rat \<Rightarrow> rat \<Rightarrow> rect \<Rightarrow> window" where
  "windowWith wd ht r =
     \<lparr> innerWidth = wd, innerHeight = ht, getBoundingClientRect = (\<lambda>el. r),
       addEventListener = True, attachEvent = False \<rparr>"

definition box :: "rat \<Rightarrow> rat \<Rightarrow> rat \<Rightarrow> rat \<Rightarrow> rect" where
  "box t b l r = \<lparr> rect_top = t, rect_right = r, rect_bottom = b, rect_left = l \<rparr>"

text \<open>
  A window in which the element is fully visible, and an object as the constructor writes
  it for the conditions \<open>{top: true}\<close> and a \<open>callbackTrue\<close>.
\<close>

definition demoWindow :: window where
  "demoWindow = windowWith 800 600 (box 10 50 10 50)"

definition demoWatcher :: watchScroll where
  "demoWatcher = fields (Some 0) (CondObj [(''top'', JBool True)]) (JFun 1) JUndefined JUndefined"

text \<open>Which callback an effect is a call of.\<close>

fun isCallTrue :: "effect \<Rightarrow> bool" where
  "isCallTrue (CallTrue f ev st) = True"
| "isCallTrue e = False"

fun isCallFalse :: "effect \<Rightarrow> bool" where
  "isCallFalse (CallFalse f ev st) = True"
| "isCallFalse e = False"

section \<open>Notions the properties are stated with\<close>

text \<open>
  The scroll handler of line 194 run on a sequence of events, each with the window as it
  is when the event arrives. The result lists the effects of each call.
\<close>

fun checkPositions :: "(window \<times> jsval) list \<Rightarrow> watchScroll
    \<Rightarrow> error + (watchScroll \<times> effect list list)" where
  "checkPositions [] this = Inr (this, [])"
| "checkPositions ((w, event) # rest) this =
     (case checkPosition w event this of
        Inl e \<Rightarrow> Inl e
      | Inr (this', effs) \<Rightarrow>
          (case checkPositions rest this' of
             Inl e \<Rightarrow> Inl e
           | Inr (this'', effss) \<Rightarrow> Inr (this'', effs # effss)))"

text \<open>The match of the conditions \<open>{centerIsVisible: true}\<close> for a bounding box in a window.\<close>

definition centerMatch :: "rect \<Rightarrow> window \<Rightarrow> bool" where
  "centerMatch r w = (status_centerIsVisible (computeStatus r w) = JBool True)"

text \<open>
  Notification on a change of the match, for the condition that the center is visible:
  given the match recorded so far, the calls that each event of a sequence is expected to
  make. The match of an evaluation is \<open>centerMatch\<close> at that event. No call where it equals the recorded match; otherwise one call, of
  \<open>callbackTrue\<close> when it is true and of \<open>callbackFalse\<close> when it is false.
\<close>

fun expectedCalls :: "jsval \<Rightarrow> jsval \<Rightarrow> jsval \<Rightarrow> nat \<Rightarrow> (window \<times> jsval) list
    \<Rightarrow> effect list list" where
  "expectedCalls recorded cbTrue cbFalse el [] = []"
| "expectedCalls recorded cbTrue cbFalse el ((w, event) # rest) =
     (let st = computeStatus (getBoundingClientRect w el) w;
          m = centerMatch (getBoundingClientRect w el) w
      in (if recorded = JBool m then []
          else if m then [CallTrue cbTrue event st]
          else [CallFalse cbFalse event st])
         # expectedCalls (JBool m) cbTrue cbFalse el rest)"

text \<open>The two shapes of the status: as the constructor writes it, and with every field set.\<close>

definition statusUnset :: "status \<Rightarrow> bool" where
  "statusUnset st =
     (status_top st = JNull \<and> status_right st = JNull \<and> status_bottom st = JNull
      \<and> status_left st = JNull \<and> status_centerIsVisible st = JNull
      \<and> status_visibility st = JNull)"

definition statusDefinite :: "status \<Rightarrow> bool" where
  "statusDefinite st =
     (typeof (status_top st) = ''boolean'' \<and> typeof (status_right st) = ''boolean''
      \<and> typeof (status_bottom st) = ''boolean'' \<and> typeof (status_left st) = ''boolean''
      \<and> typeof (status_centerIsVisible st) = ''boolean''
      \<and> status_visibility st \<in> {JStr ''full'', JStr ''partial'', JStr ''overflow'', JStr ''hidden''})"

text \<open>The test of lines 96 to 100 (131 to 135, 161 to 165): will the position be checked?\<close>

definition evaluates :: "watchScroll \<Rightarrow> bool" where
  "evaluates this =
     (element this \<noteq> None \<and> truthy_conditions (conditions this)
      \<and> (truthy (callbackTrue this) \<or> truthy (callbackFalse this)))"

section \<open>Basic facts about checkPosition\<close>

text \<open>Rules that let the simplifier evaluate the rounding at numerals.\<close>

lemma floor_rat_numeral:
  "\<lfloor>(numeral a :: rat) / numeral b\<rfloor> = numeral a div numeral b"
  "\<lfloor>- (numeral a :: rat) / numeral b\<rfloor> = - numeral a div numeral b"
  "\<lfloor>(1 :: rat) / numeral b\<rfloor> = 1 div numeral b"
  "\<lfloor>- ((numeral a :: rat) / numeral b)\<rfloor> = - numeral a div numeral b"
  using floor_divide_of_int_eq [of "numeral a" "numeral b", where ?'a = rat]
    floor_divide_of_int_eq [of "- numeral a" "numeral b", where ?'a = rat]
    floor_divide_of_int_eq [of 1 "numeral b", where ?'a = rat]
  by simp_all

lemma ceiling_rat_numeral:
  "\<lceil>(numeral a :: rat) / numeral b\<rceil> = - (- numeral a div numeral b)"
  using floor_divide_of_int_eq [of "- numeral a" "numeral b", where ?'a = rat]
  by (simp add: ceiling_def)

lemma floorlog_step:
  "0 < x \<Longrightarrow> floorlog 2 x = floorlog 2 (x div 2) + 1"
  "floorlog 2 0 = 0"
  by (simp_all add: compute_floorlog)

lemmas doubles = roundDouble_def floorLog2_def roundHalfEven_def pow2_def floorlog_step
  floor_rat_numeral ceiling_rat_numeral Let_def

lemmas evals = constructor_def on_def always_def fields_def startWatching_def checkPosition_def
  computeStatus_def matching_def gate_def setupEvents_def windowWith_def box_def status_get_def
  status_keys_def toNumber_bool_def doubles

lemma checkPosition_None: "element this = None \<Longrightarrow> checkPosition w ev this = Inl TypeError"
  by (simp add: checkPosition_def)

lemma checkPosition_total:
  "element this = Some el \<Longrightarrow> \<exists>this' effs. checkPosition w ev this = Inr (this', effs)"
  by (simp add: checkPosition_def Let_def split: prod.splits)

lemma checkPosition_frame:
  assumes "checkPosition w ev this = Inr (this', effs)"
  shows "element this' = element this \<and> conditions this' = conditions this
       \<and> callbackTrue this' = callbackTrue this \<and> callbackFalse this' = callbackFalse this
       \<and> onEveryScrollEvent this' = onEveryScrollEvent this"
  using assms
  by (auto simp: checkPosition_def Let_def split: option.splits prod.splits if_splits)

lemma checkPosition_status:
  assumes "checkPosition w ev this = Inr (this', effs)"
  shows "\<exists>el. element this = Some el \<and> status this' = computeStatus (getBoundingClientRect w el) w"
  using assms
  by (auto simp: checkPosition_def Let_def split: option.splits prod.splits if_splits)

section \<open>The status\<close>

text \<open>
  The \<open>overflow\<close> branch of line 250 compares the stored flags, which are booleans, with
  \<open>0\<close> and with the size of the viewport: \<open>false < 0\<close> and \<open>true < 0\<close> are both false, so
  no geometry is classified as \<open>overflow\<close>.
\<close>

lemma computeStatus_never_overflow:
  "status_visibility (computeStatus r w) \<noteq> JStr ''overflow''"
  by (simp add: computeStatus_def Let_def toNumber_bool_def)

text \<open>
  Claim C3, at a box that strictly contains an 800 by 600 viewport on both axes (top -10,
  bottom 700, left -10, right 900): the claim asks for the visibility \<open>overflow\<close>; the
  code computes \<open>hidden\<close>.
\<close>

theorem C3_enclosing_box_is_hidden:
  "status_visibility
     (computeStatus (box (-10) 700 (-10) 900) (windowWith 800 600 (box (-10) 700 (-10) 900)))
     = JStr ''hidden''"
  by (simp add: evals)

text \<open>
  Claim C6 as amended: with an element bound, checkPosition returns, and in the status it
  leaves each edge flag tells whether that coordinate of the bounding box lies in the
  closed interval from 0 to the viewport's height (top, bottom) or width (left, right).
  \<open>centerIsVisible\<close> tells whether the midpoint as the code computes it, each sum
  rounded to the nearest double and then halved, lies in the viewport's rectangle. That
  is the midpoint itself whenever the two sums and their halves are doubles.
\<close>

theorem C6_flags_and_rounded_center:
  assumes "element this = Some el"
  shows "\<exists>this' effs. checkPosition w ev this = Inr (this', effs)
     \<and> status_top (status this') = JBool (rect_top (getBoundingClientRect w el) \<in> {0 .. innerHeight w})
     \<and> status_bottom (status this') = JBool (rect_bottom (getBoundingClientRect w el) \<in> {0 .. innerHeight w})
     \<and> status_left (status this') = JBool (rect_left (getBoundingClientRect w el) \<in> {0 .. innerWidth w})
     \<and> status_right (status this') = JBool (rect_right (getBoundingClientRect w el) \<in> {0 .. innerWidth w})
     \<and> status_centerIsVisible (status this') =
          JBool (double_ge (halve (roundDouble (rect_left (getBoundingClientRect w el)
                                               + rect_right (getBoundingClientRect w el)))) 0
               \<and> double_le (halve (roundDouble (rect_left (getBoundingClientRect w el)
                                               + rect_right (getBoundingClientRect w el)))) (innerWidth w)
               \<and> double_ge (halve (roundDouble (rect_top (getBoundingClientRect w el)
                                               + rect_bottom (getBoundingClientRect w el)))) 0
               \<and> double_le (halve (roundDouble (rect_top (getBoundingClientRect w el)
                                               + rect_bottom (getBoundingClientRect w el)))) (innerHeight w))
     \<and> (roundDouble (rect_left (getBoundingClientRect w el) + rect_right (getBoundingClientRect w el))
           = Finite (rect_left (getBoundingClientRect w el) + rect_right (getBoundingClientRect w el))
         \<and> roundDouble ((rect_left (getBoundingClientRect w el) + rect_right (getBoundingClientRect w el)) / 2)
           = Finite ((rect_left (getBoundingClientRect w el) + rect_right (getBoundingClientRect w el)) / 2)
         \<and> roundDouble (rect_top (getBoundingClientRect w el) + rect_bottom (getBoundingClientRect w el))
           = Finite (rect_top (getBoundingClientRect w el) + rect_bottom (getBoundingClientRect w el))
         \<and> roundDouble ((rect_top (getBoundingClientRect w el) + rect_bottom (getBoundingClientRect w el)) / 2)
           = Finite ((rect_top (getBoundingClientRect w el) + rect_bottom (getBoundingClientRect w el)) / 2)
         \<longrightarrow> status_centerIsVisible (status this') =
          JBool ((rect_left (getBoundingClientRect w el) + rect_right (getBoundingClientRect w el)) / 2
                   \<in> {0 .. innerWidth w}
               \<and> (rect_top (getBoundingClientRect w el) + rect_bottom (getBoundingClientRect w el)) / 2
                   \<in> {0 .. innerHeight w}))"
proof -
  obtain this' effs where r: "checkPosition w ev this = Inr (this', effs)"
    using checkPosition_total [OF assms] by blast
  from checkPosition_status [OF r] assms
  have st: "status this' = computeStatus (getBoundingClientRect w el) w" by auto
  show ?thesis
    by (rule exI [of _ this'], rule exI [of _ effs])
       (auto simp: r st computeStatus_def Let_def)
qed

theorem C6_flags_and_rounded_center_witness:
  "\<exists>this' effs. checkPosition (windowWith 800 600 (box 10 50 (-30) 50)) JUndefined
        (fields (Some 0) (CondVal (JStr ''all'')) (JFun 1) JUndefined JUndefined) = Inr (this', effs)
     \<and> status_top (status this') = JBool True
     \<and> status_bottom (status this') = JBool True
     \<and> status_left (status this') = JBool False
     \<and> status_right (status this') = JBool True
     \<and> roundDouble (- 30 + 50) = Finite (- 30 + 50)
     \<and> roundDouble ((- 30 + 50) / 2) = Finite ((- 30 + 50) / 2)
     \<and> roundDouble (10 + 50) = Finite (10 + 50)
     \<and> roundDouble ((10 + 50) / 2) = Finite ((10 + 50) / 2)
     \<and> status_centerIsVisible (status this') = JBool True"
proof -
  have e: "roundDouble (- 30 + 50) = Finite (- 30 + 50)"
    "roundDouble ((- 30 + 50) / 2) = Finite ((- 30 + 50) / 2)"
    "roundDouble (10 + 50) = Finite (10 + 50)"
    "roundDouble ((10 + 50) / 2) = Finite ((10 + 50) / 2)"
    by (simp_all add: doubles)
  from e C6_flags_and_rounded_center [of
      "fields (Some 0) (CondVal (JStr ''all'')) (JFun 1) JUndefined JUndefined" 0
      "windowWith 800 600 (box 10 50 (-30) 50)" JUndefined]
  show ?thesis
    by (simp add: fields_def windowWith_def box_def)
qed

text \<open>
  Claim C6 as stated fails for the center: for the box with left \<open>2 ^ -44\<close> and right 1600
  (both doubles) in a viewport 800 wide, the sum rounds to 1600, so the code finds the
  center at 800 and sets \<open>centerIsVisible\<close>, while the midpoint lies to the right of 800.
\<close>

theorem C6_counterexample:
  "checkPosition (windowWith 800 600 (box 10 50 (1 / 2 ^ 44) 1600)) JUndefined
     (fields (Some 0) (CondVal (JStr ''all'')) (JFun 1) JUndefined JUndefined)
   = Inr (\<lparr> element = Some 0,
             status = \<lparr> status_top = JBool True, status_right = JBool False,
                        status_bottom = JBool True, status_left = JBool True,
                        status_centerIsVisible = JBool True,
                        status_visibility = JStr ''partial'' \<rparr>,
             conditionsMatch = JStr ''all'',
             conditions = CondVal (JStr ''all''),
             callbackTrue = JFun 1,
             callbackFalse = JUndefined,
             onEveryScrollEvent = JUndefined \<rparr>,
          [CallTrue (JFun 1) JUndefined
             \<lparr> status_top = JBool True, status_right = JBool False,
               status_bottom = JBool True, status_left = JBool True,
               status_centerIsVisible = JBool True,
               status_visibility = JStr ''partial'' \<rparr>])
   \<and> (1 / 2 ^ 44 + 1600) / 2 \<notin> {0 .. 800 :: rat}
   \<and> roundDouble (1 / 2 ^ 44) = Finite (1 / 2 ^ 44)
   \<and> roundDouble 1600 = Finite 1600"
  by (simp add: evals)

section \<open>Matching a conditions object\<close>

text \<open>
  Claim C1, at its own input: bounding box top -1000, bottom -900, left 10, right 50 in an
  800 by 600 viewport, conditions \<open>{visibility: "hidden"}\<close>, no match recorded yet. The
  visibility is computed as \<open>hidden\<close>, as the claim says. The loop of line 267 then finds
  the value \<open>"hidden"\<close> in the conditions and asks for \<open>this.status.visibility\<close> to be
  \<open>false\<close>; it is the string \<open>"hidden"\<close>, so the match is recorded as false and
  \<open>callbackFalse\<close> is called, where the claim has a match and \<open>callbackTrue\<close>.
\<close>

theorem C1_hidden_condition_not_matched:
  "checkPosition (windowWith 800 600 (box (-1000) (-900) 10 50)) JUndefined
     (fields (Some 0) (CondObj [(''visibility'', JStr ''hidden'')]) (JFun 1) (JFun 2) JUndefined)
   = Inr (\<lparr> element = Some 0,
             status = \<lparr> status_top = JBool False, status_right = JBool True,
                        status_bottom = JBool False, status_left = JBool True,
                        status_centerIsVisible = JBool False,
                        status_visibility = JStr ''hidden'' \<rparr>,
             conditionsMatch = JBool False,
             conditions = CondObj [(''visibility'', JStr ''hidden'')],
             callbackTrue = JFun 1,
             callbackFalse = JFun 2,
             onEveryScrollEvent = JUndefined \<rparr>,
          [CallFalse (JFun 2) JUndefined
             \<lparr> status_top = JBool False, status_right = JBool True,
               status_bottom = JBool False, status_left = JBool True,
               status_centerIsVisible = JBool False,
               status_visibility = JStr ''hidden'' \<rparr>])"
  by (simp add: evals)

lemma status_get_unknown: "side \<notin> set status_keys \<Longrightarrow> status_get st side = JUndefined"
  by (simp add: status_get_def status_keys_def)

lemma conditionsLoop_unknown:
  "side \<in> set ks \<Longrightarrow> side \<notin> set status_keys \<Longrightarrow> conditionsLoop ks conds st = (False, True)"
  by (induction ks) (auto simp: status_get_unknown)

text \<open>
  Claim C2 as amended: a conditions object with a property whose name is not one of the
  six names of the status never matches. Whatever the other properties, the status and
  the value of that property, the loop of lines 266 to 272 ends with \<open>conditionsMatch\<close>
  false and \<open>statusChange\<close> true, since \<open>this.status[side]\<close> is \<open>undefined\<close> there, which
  is neither \<open>false\<close> nor \<open>true\<close>.
\<close>

theorem C2_unrecognized_field_never_matches:
  assumes "conditions this = CondObj props"
    and "side \<in> fst ` set props"
    and "side \<notin> set status_keys"
    and "conditionsMatch this \<noteq> JStr ''all''"
  shows "matching this previousStatus st = (False, True)"
  using assms by (auto simp: matching_def conditionsLoop_unknown)

theorem C2_unrecognized_field_never_matches_witness:
  "conditions (fields (Some 0) (CondObj [(''top'', JBool True), (''foo'', JBool True)])
       (JFun 1) (JFun 2) JUndefined) = CondObj [(''top'', JBool True), (''foo'', JBool True)]
   \<and> ''foo'' \<in> fst ` set [(''top'', JBool True), (''foo'', JBool True)]
   \<and> ''foo'' \<notin> set status_keys
   \<and> conditionsMatch (fields (Some 0) (CondObj [(''top'', JBool True), (''foo'', JBool True)])
       (JFun 1) (JFun 2) JUndefined) \<noteq> JStr ''all''
   \<and> matching
       (fields (Some 0) (CondObj [(''top'', JBool True), (''foo'', JBool True)])
          (JFun 1) (JFun 2) JUndefined)
       (status (fields (Some 0) (CondObj [(''top'', JBool True), (''foo'', JBool True)])
          (JFun 1) (JFun 2) JUndefined))
       (computeStatus (box 10 50 10 50) (windowWith 800 600 (box 10 50 10 50)))
     = (False, True)"
  using C2_unrecognized_field_never_matches [of
      "fields (Some 0) (CondObj [(''top'', JBool True), (''foo'', JBool True)]) (JFun 1) (JFun 2) JUndefined"
      "[(''top'', JBool True), (''foo'', JBool True)]" "''foo''"]
  by (simp add: fields_def status_keys_def)

text \<open>
  Claim C2 as stated fails: for a fully visible element the conditions \<open>{foo: true}\<close> do
  not match, and the same object without \<open>foo\<close>, the empty object, matches.
\<close>

theorem C2_counterexample:
  "matching (fields (Some 0) (CondObj [(''foo'', JBool True)]) (JFun 1) (JFun 2) JUndefined)
       (status (fields (Some 0) (CondObj [(''foo'', JBool True)]) (JFun 1) (JFun 2) JUndefined))
       (computeStatus (box 10 50 10 50) (windowWith 800 600 (box 10 50 10 50)))
     = (False, True)
   \<and> matching (fields (Some 0) (CondObj []) (JFun 1) (JFun 2) JUndefined)
       (status (fields (Some 0) (CondObj []) (JFun 1) (JFun 2) JUndefined))
       (computeStatus (box 10 50 10 50) (windowWith 800 600 (box 10 50 10 50)))
     = (True, False)"
  by (simp add: evals)

section \<open>No element\<close>

text \<open>
  Claim C4 as amended: without an element, \<open>on\<close> and \<open>always\<close> store what they are given
  and return \<open>undefined\<close>, and the constructor stores what it is given and yields the
  instance; none of them fails, and they register no handler, check no position, leave
  the status alone and call no callback. With an element, checkPosition returns whatever
  the event argument is, \<open>undefined\<close> included.
\<close>

theorem C4_unbound_element:
  "(element this = None \<longrightarrow>
      on w conds cbTrue cbFalse every this =
        Inr (this\<lparr> conditionsMatch := (if ''string'' = typeof_conditions conds then JStr ''all'' else JNull),
                   conditions := conds, callbackTrue := cbTrue, callbackFalse := cbFalse,
                   onEveryScrollEvent := every \<rparr>, [], RetUndefined)
    \<and> always w cbTrue this =
        Inr (this\<lparr> conditionsMatch := JStr ''all'', conditions := CondVal (JStr ''all''),
                   callbackTrue := cbTrue \<rparr>, [], RetUndefined))
   \<and> constructor w None conds cbTrue cbFalse every =
        Inr (fields None conds cbTrue cbFalse every, [], RetThis)
   \<and> (element this \<noteq> None \<longrightarrow> (\<exists>this' effs. checkPosition w event this = Inr (this', effs)))"
  using checkPosition_total [of this _ w event]
  by (auto simp: on_def always_def constructor_def startWatching_def fields_def)

theorem C4_unbound_element_witness:
  "on (windowWith 800 600 (box 10 50 10 50)) (CondVal (JStr ''all'')) (JFun 1) JUndefined JUndefined
        (fields None (CondVal JUndefined) JUndefined JUndefined JUndefined)
     = Inr (fields None (CondVal (JStr ''all'')) (JFun 1) JUndefined JUndefined, [], RetUndefined)
   \<and> always (windowWith 800 600 (box 10 50 10 50)) (JFun 1)
        (fields None (CondVal JUndefined) JUndefined JUndefined JUndefined)
     = Inr (fields None (CondVal (JStr ''all'')) (JFun 1) JUndefined JUndefined, [], RetUndefined)
   \<and> constructor (windowWith 800 600 (box 10 50 10 50)) None (CondVal (JStr ''all'')) (JFun 1)
        JUndefined JUndefined
     = Inr (fields None (CondVal (JStr ''all'')) (JFun 1) JUndefined JUndefined, [], RetThis)
   \<and> (\<exists>this' effs. checkPosition (windowWith 800 600 (box 10 50 10 50)) JUndefined
         (fields (Some 0) (CondVal (JStr ''all'')) (JFun 1) JUndefined JUndefined) = Inr (this', effs))"
  using C4_unbound_element [of "fields None (CondVal JUndefined) JUndefined JUndefined JUndefined"
      "windowWith 800 600 (box 10 50 10 50)" "CondVal (JStr ''all'')" "JFun 1" JUndefined JUndefined JUndefined]
    C4_unbound_element [of "fields (Some 0) (CondVal (JStr ''all'')) (JFun 1) JUndefined JUndefined"
      "windowWith 800 600 (box 10 50 10 50)" "CondVal (JStr ''all'')" "JFun 1" JUndefined JUndefined JUndefined]
  by (simp add: fields_def)

text \<open>
  Claim C4 as stated fails: checkPosition on an object without an element is a TypeError,
  and \<open>on\<close> without an element is not a no-op, it replaces the configuration.
\<close>

theorem C4_counterexample:
  "checkPosition (windowWith 800 600 (box 10 50 10 50)) JUndefined
     (fields None (CondVal (JStr ''all'')) (JFun 1) JUndefined JUndefined) = Inl TypeError
   \<and> on (windowWith 800 600 (box 10 50 10 50)) (CondVal (JStr ''all'')) (JFun 1) JUndefined JUndefined
        (fields None (CondVal JUndefined) JUndefined JUndefined JUndefined)
     = Inr (fields None (CondVal (JStr ''all'')) (JFun 1) JUndefined JUndefined, [], RetUndefined)
   \<and> fields None (CondVal (JStr ''all'')) (JFun 1) JUndefined JUndefined
     \<noteq> fields None (CondVal JUndefined) JUndefined JUndefined JUndefined"
  by (simp add: evals)

section \<open>always\<close>

lemma checkPosition_all_no_CallFalse:
  assumes "checkPosition w ev this = Inr (this', effs)" and "conditionsMatch this = JStr ''all''"
  shows "conditionsMatch this' = JStr ''all'' \<and> filter isCallFalse effs = []"
  using assms
  by (auto simp: checkPosition_def Let_def split: option.splits prod.splits if_splits)

text \<open>
  Claim C5 as amended: \<open>always\<close> returns; afterwards the conditions and the recorded match
  are \<open>"all"\<close> and \<open>callbackTrue\<close> is the argument, while \<open>callbackFalse\<close>,
  \<open>onEveryScrollEvent\<close> and the element are what they were before: \<open>callbackFalse\<close> is
  kept, not cleared. The call itself does not call \<open>callbackFalse\<close>.
\<close>

theorem C5_always_keeps_callbackFalse:
  "\<exists>this' effs r. always w cbTrue this = Inr (this', effs, r)
     \<and> conditions this' = CondVal (JStr ''all'')
     \<and> conditionsMatch this' = JStr ''all''
     \<and> callbackTrue this' = cbTrue
     \<and> callbackFalse this' = callbackFalse this
     \<and> onEveryScrollEvent this' = onEveryScrollEvent this
     \<and> element this' = element this
     \<and> filter isCallFalse effs = []"
proof -
  let ?this1 = "this\<lparr> conditionsMatch := JStr ''all'', conditions := CondVal (JStr ''all''),
                      callbackTrue := cbTrue \<rparr>"
  show ?thesis
  proof (cases "element this = None \<or> \<not> (truthy cbTrue \<or> truthy (callbackFalse this))")
    case True
    then show ?thesis by (auto simp: always_def startWatching_def)
  next
    case False
    then obtain el where el: "element ?this1 = Some el" by auto
    from checkPosition_total [OF el]
    obtain this' effs where r: "checkPosition w JUndefined ?this1 = Inr (this', effs)" by blast
    from checkPosition_frame [OF r] checkPosition_all_no_CallFalse [OF r] False r
    show ?thesis
      by (auto simp: always_def startWatching_def setupEvents_def)
  qed
qed

theorem C5_always_keeps_callbackFalse_witness:
  "\<exists>this' effs r.
     always (windowWith 800 600 (box 10 50 10 50)) (JFun 1)
       (fields (Some 0) (CondObj [(''top'', JBool True)]) JUndefined (JFun 2) (JBool True))
       = Inr (this', effs, r)
     \<and> conditions this' = CondVal (JStr ''all'')
     \<and> conditionsMatch this' = JStr ''all''
     \<and> callbackTrue this' = JFun 1
     \<and> callbackFalse this' = JFun 2
     \<and> onEveryScrollEvent this' = JBool True
     \<and> element this' = Some 0
     \<and> filter isCallFalse effs = []"
  using C5_always_keeps_callbackFalse [of "windowWith 800 600 (box 10 50 10 50)" "JFun 1"
      "fields (Some 0) (CondObj [(''top'', JBool True)]) JUndefined (JFun 2) (JBool True)"]
  by (simp add: fields_def)

text \<open>
  Claim C5 as stated fails: after \<open>always\<close> on an object whose \<open>callbackFalse\<close> is the
  function 2, \<open>callbackFalse\<close> is still the function 2.
\<close>

theorem C5_counterexample:
  "always (windowWith 800 600 (box 10 50 10 50)) (JFun 1)
     (fields (Some 0) (CondObj [(''top'', JBool True)]) JUndefined (JFun 2) (JBool True))
   = Inr (\<lparr> element = Some 0,
             status = \<lparr> status_top = JBool True, status_right = JBool True,
                        status_bottom = JBool True, status_left = JBool True,
                        status_centerIsVisible = JBool True,
                        status_visibility = JStr ''full'' \<rparr>,
             conditionsMatch = JStr ''all'',
             conditions = CondVal (JStr ''all''),
             callbackTrue = JFun 1,
             callbackFalse = JFun 2,
             onEveryScrollEvent = JBool True \<rparr>,
          [AddListeners,
           CallTrue (JFun 1) JUndefined
             \<lparr> status_top = JBool True, status_right = JBool True,
               status_bottom = JBool True, status_left = JBool True,
               status_centerIsVisible = JBool True,
               status_visibility = JStr ''full'' \<rparr>],
          RetThis)"
  by (simp add: evals)

section \<open>Which callback, and when\<close>

text \<open>
  Claim C10: a call of checkPosition that returns calls at most one callback; it does not
  call \<open>callbackFalse\<close> when the match it leaves recorded is truthy, nor \<open>callbackTrue\<close>
  when it is falsy; and when the callback that the recorded match selects is not a
  function, it calls nothing, whatever let the notification through.
\<close>

theorem C10_at_most_one_callback:
  assumes "checkPosition w ev this = Inr (this', effs)"
  shows "length effs \<le> 1
     \<and> (truthy (conditionsMatch this') \<longrightarrow> filter isCallFalse effs = [])
     \<and> (\<not> truthy (conditionsMatch this') \<longrightarrow> filter isCallTrue effs = [])
     \<and> (truthy (conditionsMatch this') \<and> typeof (callbackTrue this) \<noteq> ''function'' \<longrightarrow> effs = [])
     \<and> (\<not> truthy (conditionsMatch this') \<and> typeof (callbackFalse this) \<noteq> ''function'' \<longrightarrow> effs = [])"
  using assms
  by (auto simp: checkPosition_def Let_def split: option.splits prod.splits if_splits)

theorem C10_at_most_one_callback_witness:
  "checkPosition (windowWith 800 600 (box 10 50 10 50)) JUndefined
       (fields (Some 0) (CondObj [(''top'', JBool True)]) JUndefined (JFun 2) (JBool True))
     = Inr ((fields (Some 0) (CondObj [(''top'', JBool True)]) JUndefined (JFun 2) (JBool True))
              \<lparr> status := computeStatus (box 10 50 10 50) (windowWith 800 600 (box 10 50 10 50)),
                conditionsMatch := JBool True \<rparr>, [])
   \<and> truthy (JBool True) \<and> typeof JUndefined \<noteq> ''function''
   \<and> length ([] :: effect list) \<le> 1"
proof -
  have r: "checkPosition (windowWith 800 600 (box 10 50 10 50)) JUndefined
       (fields (Some 0) (CondObj [(''top'', JBool True)]) JUndefined (JFun 2) (JBool True))
     = Inr ((fields (Some 0) (CondObj [(''top'', JBool True)]) JUndefined (JFun 2) (JBool True))
              \<lparr> status := computeStatus (box 10 50 10 50) (windowWith 800 600 (box 10 50 10 50)),
                conditionsMatch := JBool True \<rparr>, [])"
    by (simp add: evals)
  from C10_at_most_one_callback [OF r] r show ?thesis by simp
qed

section \<open>The condition \<open>"all"\<close>\<close>

lemma statusLoop_same: "statusLoop ks st st = False"
  by (induction ks) auto

lemma checkPosition_all_first:
  assumes "checkPosition w ev this = Inr (this', effs)"
    and "conditions this = CondVal (JStr ''all'')"
  shows "conditionsMatch this' \<noteq> JNull \<and> conditionsMatch this' \<noteq> JBool False"
  using assms
  by (auto simp: checkPosition_def Let_def matching_def gate_def
           split: option.splits prod.splits if_splits)

lemma checkPosition_all_stable:
  assumes "element this = Some el"
    and "conditions this = CondVal (JStr ''all'')"
    and "\<not> truthy (onEveryScrollEvent this)"
    and "conditionsMatch this \<noteq> JNull" and "conditionsMatch this \<noteq> JBool False"
    and "status this = computeStatus (getBoundingClientRect w el) w"
  shows "checkPosition w ev this = Inr (this, [])"
proof -
  have m: "matching this (status this) (status this) = (True, False)"
    using assms(2) by (simp add: matching_def statusLoop_same)
  have g: "\<not> gate this True False"
    using assms(3,4,5) by (cases "conditionsMatch this") (auto simp: gate_def)
  have u: "this\<lparr> status := status this \<rparr> = this" by simp
  show ?thesis
    using assms(1) m g
    by (simp add: checkPosition_def Let_def assms(6) [symmetric] u)
qed

text \<open>
  Claim C8: with the conditions \<open>"all"\<close> and \<open>onEveryScrollEvent\<close> falsy, when
  checkPosition runs twice while the element's bounding box and the viewport's width and
  height stay the same, both calls return, and the second one calls no callback and leaves
  the object as the first one left it.
\<close>

theorem C8_all_same_geometry_silent:
  assumes "element this = Some el"
    and "conditions this = CondVal (JStr ''all'')"
    and "\<not> truthy (onEveryScrollEvent this)"
    and "getBoundingClientRect w2 el = getBoundingClientRect w1 el"
    and "innerWidth w2 = innerWidth w1" and "innerHeight w2 = innerHeight w1"
  shows "\<exists>this1 effs1. checkPosition w1 ev1 this = Inr (this1, effs1)
           \<and> checkPosition w2 ev2 this1 = Inr (this1, [])"
proof -
  obtain this1 effs1 where r: "checkPosition w1 ev1 this = Inr (this1, effs1)"
    using checkPosition_total [OF assms(1)] by blast
  note f = checkPosition_frame [OF r]
  from checkPosition_status [OF r] assms(1)
  have st: "status this1 = computeStatus (getBoundingClientRect w1 el) w1" by auto
  have cs: "computeStatus (getBoundingClientRect w1 el) w1 = computeStatus (getBoundingClientRect w2 el) w2"
    by (simp only: computeStatus_def assms(4,5,6))
  have "checkPosition w2 ev2 this1 = Inr (this1, [])"
    using checkPosition_all_stable [of this1 el w2 ev2] f assms(1,2,3)
      checkPosition_all_first [OF r assms(2)] st cs
    by simp
  with r show ?thesis by blast
qed

theorem C8_all_same_geometry_silent_witness:
  "element (fields (Some 0) (CondVal (JStr ''all'')) (JFun 1) (JFun 2) JUndefined) = Some 0
   \<and> conditions (fields (Some 0) (CondVal (JStr ''all'')) (JFun 1) (JFun 2) JUndefined)
       = CondVal (JStr ''all'')
   \<and> \<not> truthy (onEveryScrollEvent (fields (Some 0) (CondVal (JStr ''all'')) (JFun 1) (JFun 2) JUndefined))
   \<and> (\<exists>this1 effs1.
        checkPosition (windowWith 800 600 (box 10 50 10 50)) JUndefined
          (fields (Some 0) (CondVal (JStr ''all'')) (JFun 1) (JFun 2) JUndefined) = Inr (this1, effs1)
        \<and> checkPosition (windowWith 800 600 (box 10 50 10 50)) (JStr ''scroll'') this1
          = Inr (this1, []))"
  using C8_all_same_geometry_silent [of
      "fields (Some 0) (CondVal (JStr ''all'')) (JFun 1) (JFun 2) JUndefined" 0
      "windowWith 800 600 (box 10 50 10 50)" "windowWith 800 600 (box 10 50 10 50)"
      JUndefined "JStr ''scroll''"]
  by (simp add: fields_def)

section \<open>The condition that the center is visible\<close>

lemma computeStatus_center:
  "status_centerIsVisible (computeStatus r w) = JBool (centerMatch r w)"
  by (simp add: centerMatch_def computeStatus_def Let_def)

lemma matching_center:
  assumes "conditions this = CondObj [(''centerIsVisible'', JBool True)]"
    and "conditionsMatch this \<noteq> JStr ''all''"
  shows "matching this previousStatus (computeStatus r w)
           = (centerMatch r w, \<not> centerMatch r w)"
  using assms
  by (auto simp: matching_def status_get_def computeStatus_center)

lemma checkPosition_center:
  assumes "element this = Some el"
    and "conditions this = CondObj [(''centerIsVisible'', JBool True)]"
    and "typeof (callbackTrue this) = ''function''"
    and "typeof (callbackFalse this) = ''function''"
    and "\<not> truthy (onEveryScrollEvent this)"
    and "conditionsMatch this = JNull \<or> typeof (conditionsMatch this) = ''boolean''"
  shows "checkPosition w ev this =
           Inr (this\<lparr> status := computeStatus (getBoundingClientRect w el) w,
                      conditionsMatch := JBool (centerMatch (getBoundingClientRect w el) w) \<rparr>,
                hd (expectedCalls (conditionsMatch this) (callbackTrue this) (callbackFalse this) el [(w, ev)]))"
proof -
  have na: "conditionsMatch this \<noteq> JStr ''all''" using assms(6) by auto
  have m: "matching (this\<lparr> status := computeStatus (getBoundingClientRect w el) w \<rparr>) (status this)
             (computeStatus (getBoundingClientRect w el) w)
           = (centerMatch (getBoundingClientRect w el) w, \<not> centerMatch (getBoundingClientRect w el) w)"
    by (rule matching_center) (simp_all add: assms(2) na)
  show ?thesis
  proof (cases "conditionsMatch this")
    case (JBool b)
    have e: "this\<lparr> status := computeStatus (getBoundingClientRect w el) w \<rparr>
              = this\<lparr> status := computeStatus (getBoundingClientRect w el) w, conditionsMatch := JBool b \<rparr>"
      using JBool by simp
    show ?thesis
      using assms(1-5) JBool e
      by (auto simp: checkPosition_def m gate_def Let_def)
  qed (use assms in \<open>auto simp: checkPosition_def m gate_def Let_def\<close>)
qed

text \<open>
  Claim C7 as amended: with the conditions \<open>{centerIsVisible: true}\<close>, both callbacks
  functions, \<open>onEveryScrollEvent\<close> falsy and the recorded match unset or a boolean,
  checkPosition returns on every event of any sequence, and the calls it makes are those
  of \<open>expectedCalls\<close>. An evaluation whose match is true while the recorded match is not
  true (unset or false) calls \<open>callbackTrue\<close> once; one whose match is false while the
  recorded match is not false (unset or true) calls \<open>callbackFalse\<close> once, so the first
  evaluation calls \<open>callbackFalse\<close> when it finds the center outside; one whose match is
  the recorded match calls nothing. The match is the flag \<open>centerIsVisible\<close> that the
  evaluation computes.
\<close>

theorem C7_notified_on_change:
  assumes "element this = Some el"
    and "conditions this = CondObj [(''centerIsVisible'', JBool True)]"
    and "typeof (callbackTrue this) = ''function''"
    and "typeof (callbackFalse this) = ''function''"
    and "\<not> truthy (onEveryScrollEvent this)"
    and "conditionsMatch this = JNull \<or> typeof (conditionsMatch this) = ''boolean''"
  shows "\<exists>this'. checkPositions evs this =
           Inr (this', expectedCalls (conditionsMatch this) (callbackTrue this) (callbackFalse this) el evs)"
  using assms
proof (induction evs arbitrary: this)
  case Nil
  then show ?case by simp
next
  case (Cons we evs)
  obtain w ev where we: "we = (w, ev)" by (cases we)
  let ?this1 = "this\<lparr> status := computeStatus (getBoundingClientRect w el) w,
                      conditionsMatch := JBool (centerMatch (getBoundingClientRect w el) w) \<rparr>"
  have step: "checkPosition w ev this =
           Inr (?this1, hd (expectedCalls (conditionsMatch this) (callbackTrue this) (callbackFalse this) el [(w, ev)]))"
    by (rule checkPosition_center) (use Cons.prems in auto)
  have "\<exists>this'. checkPositions evs ?this1 =
           Inr (this', expectedCalls (conditionsMatch ?this1) (callbackTrue ?this1) (callbackFalse ?this1) el evs)"
    by (rule Cons.IH) (use Cons.prems in auto)
  then obtain this' where rest: "checkPositions evs ?this1 =
           Inr (this', expectedCalls (JBool (centerMatch (getBoundingClientRect w el) w))
                  (callbackTrue this) (callbackFalse this) el evs)"
    by auto
  show ?case
    unfolding we by (simp add: step rest Let_def)
qed

lemma centerMatch_examples:
  "\<not> centerMatch (box 700 900 10 50) (windowWith 800 600 (box 700 900 10 50))"
  "centerMatch (box 400 600 10 50) (windowWith 800 600 (box 400 600 10 50))"
  "centerMatch (box 100 300 10 50) (windowWith 800 600 (box 100 300 10 50))"
  "\<not> centerMatch (box (-300) (-100) 10 50) (windowWith 800 600 (box (-300) (-100) 10 50))"
  "\<not> centerMatch (box (-600) (-400) 10 50) (windowWith 800 600 (box (-600) (-400) 10 50))"
  by (simp_all add: centerMatch_def evals)

theorem C7_notified_on_change_witness:
  "\<exists>this'. checkPositions
       [(windowWith 800 600 (box 700 900 10 50), JStr ''e1''),
        (windowWith 800 600 (box 400 600 10 50), JStr ''e2''),
        (windowWith 800 600 (box 100 300 10 50), JStr ''e3''),
        (windowWith 800 600 (box (-300) (-100) 10 50), JStr ''e4''),
        (windowWith 800 600 (box (-600) (-400) 10 50), JStr ''e5'')]
       (fields (Some 0) (CondObj [(''centerIsVisible'', JBool True)]) (JFun 1) (JFun 2) JUndefined)
     = Inr (this',
        [[CallFalse (JFun 2) (JStr ''e1'')
            (computeStatus (box 700 900 10 50) (windowWith 800 600 (box 700 900 10 50)))],
         [CallTrue (JFun 1) (JStr ''e2'')
            (computeStatus (box 400 600 10 50) (windowWith 800 600 (box 400 600 10 50)))],
         [],
         [CallFalse (JFun 2) (JStr ''e4'')
            (computeStatus (box (-300) (-100) 10 50) (windowWith 800 600 (box (-300) (-100) 10 50)))],
         []])"
proof -
  have g: "\<And>r. getBoundingClientRect (windowWith 800 600 r) 0 = r"
    by (simp add: windowWith_def)
  from C7_notified_on_change [of
      "fields (Some 0) (CondObj [(''centerIsVisible'', JBool True)]) (JFun 1) (JFun 2) JUndefined" 0
      "[(windowWith 800 600 (box 700 900 10 50), JStr ''e1''),
        (windowWith 800 600 (box 400 600 10 50), JStr ''e2''),
        (windowWith 800 600 (box 100 300 10 50), JStr ''e3''),
        (windowWith 800 600 (box (-300) (-100) 10 50), JStr ''e4''),
        (windowWith 800 600 (box (-600) (-400) 10 50), JStr ''e5'')]"]
  show ?thesis
    by (simp add: fields_def g centerMatch_examples)
qed

text \<open>
  Claim C7 as stated fails for \<open>callbackFalse\<close>: from the object as the constructor
  writes it, with the center outside, then inside, then outside again, \<open>callbackFalse\<close>
  is called at the first evaluation, where the match goes from unset to false and the
  center has not been inside, and again at the third: twice for one transition from
  inside to outside.
\<close>

theorem C7_counterexample:
  "checkPositions
       [(windowWith 800 600 (box 700 900 10 50), JStr ''e1''),
        (windowWith 800 600 (box 100 300 10 50), JStr ''e2''),
        (windowWith 800 600 (box 700 900 10 50), JStr ''e3'')]
       (fields (Some 0) (CondObj [(''centerIsVisible'', JBool True)]) (JFun 1) (JFun 2) JUndefined)
     = Inr ((fields (Some 0) (CondObj [(''centerIsVisible'', JBool True)]) (JFun 1) (JFun 2) JUndefined)
              \<lparr> status := \<lparr> status_top = JBool False, status_right = JBool True,
                             status_bottom = JBool False, status_left = JBool True,
                             status_centerIsVisible = JBool False,
                             status_visibility = JStr ''hidden'' \<rparr>,
                conditionsMatch := JBool False \<rparr>,
        [[CallFalse (JFun 2) (JStr ''e1'')
            \<lparr> status_top = JBool False, status_right = JBool True,
              status_bottom = JBool False, status_left = JBool True,
              status_centerIsVisible = JBool False,
              status_visibility = JStr ''hidden'' \<rparr>],
         [CallTrue (JFun 1) (JStr ''e2'')
            \<lparr> status_top = JBool True, status_right = JBool True,
              status_bottom = JBool True, status_left = JBool True,
              status_centerIsVisible = JBool True,
              status_visibility = JStr ''full'' \<rparr>],
         [CallFalse (JFun 2) (JStr ''e3'')
            \<lparr> status_top = JBool False, status_right = JBool True,
              status_bottom = JBool False, status_left = JBool True,
              status_centerIsVisible = JBool False,
              status_visibility = JStr ''hidden'' \<rparr>]])"
  by (simp add: evals)

section \<open>The status before and after an evaluation\<close>

lemma computeStatus_definite: "statusDefinite (computeStatus r w)"
  by (simp add: computeStatus_def statusDefinite_def Let_def)

lemma checkPosition_definite:
  "checkPosition w ev this = Inr (this', effs) \<Longrightarrow> statusDefinite (status this')"
  using checkPosition_status [of w ev this this' effs] by (auto simp: computeStatus_definite)

lemma startWatching_status:
  "\<exists>this' effs r. startWatching w this = Inr (this', effs, r)
     \<and> (if evaluates this then statusDefinite (status this') else status this' = status this)"
proof (cases "evaluates this")
  case True
  then obtain el where el: "element this = Some el" by (auto simp: evaluates_def)
  from checkPosition_total [OF el]
  obtain this' effs where r: "checkPosition w JUndefined this = Inr (this', effs)" by blast
  from True r checkPosition_definite [OF r] show ?thesis
    by (auto simp: startWatching_def evaluates_def)
next
  case False
  then show ?thesis by (auto simp: startWatching_def evaluates_def)
qed

text \<open>
  Claim C9: the status that the constructor writes has all six fields unset, and the
  constructed object still has it unless the constructor checked the position. After a
  call of checkPosition that returns, the four edge flags and \<open>centerIsVisible\<close> are
  booleans and \<open>visibility\<close> is one of \<open>full\<close>, \<open>partial\<close>, \<open>overflow\<close>, \<open>hidden\<close>.
  \<open>on\<close> and \<open>always\<close> return, and they leave the status as it was or leave such a
  status, so they keep a status with every field set; \<open>cancel\<close> does not touch the status.
\<close>

theorem C9_status_unset_then_definite:
  "statusUnset (status (fields el conds cbTrue cbFalse every))
   \<and> (\<exists>thisC effsC retC.
        constructor w el conds cbTrue cbFalse every = Inr (thisC, effsC, retC)
        \<and> (if evaluates (fields el conds cbTrue cbFalse every)
           then statusDefinite (status thisC) else statusUnset (status thisC)))
   \<and> (checkPosition w ev this = Inr (this', effs) \<longrightarrow> statusDefinite (status this'))
   \<and> (\<exists>thisO effsO retO.
        on w conds cbTrue cbFalse every this = Inr (thisO, effsO, retO)
        \<and> (status thisO = status this \<or> statusDefinite (status thisO))
        \<and> (statusDefinite (status this) \<longrightarrow> statusDefinite (status thisO)))
   \<and> (\<exists>thisA effsA retA.
        always w cbTrue this = Inr (thisA, effsA, retA)
        \<and> (status thisA = status this \<or> statusDefinite (status thisA))
        \<and> (statusDefinite (status this) \<longrightarrow> statusDefinite (status thisA)))
   \<and> (cancel w this = Inr (thisX, effsX) \<longrightarrow> status thisX = status this)"
proof -
  have a: "statusUnset (status (fields el conds cbTrue cbFalse every))"
    by (simp add: fields_def statusUnset_def)
  have b: "checkPosition w ev this = Inr (this', effs) \<longrightarrow> statusDefinite (status this')"
    by (simp add: checkPosition_definite)
  have c: "\<exists>thisC effsC retC.
        constructor w el conds cbTrue cbFalse every = Inr (thisC, effsC, retC)
        \<and> (if evaluates (fields el conds cbTrue cbFalse every)
           then statusDefinite (status thisC) else statusUnset (status thisC))"
    using startWatching_status [of w "fields el conds cbTrue cbFalse every"] a
    unfolding constructor_def by (auto split: if_splits)
  have d: "\<exists>thisO effsO retO.
        on w conds cbTrue cbFalse every this = Inr (thisO, effsO, retO)
        \<and> (status thisO = status this \<or> statusDefinite (status thisO))
        \<and> (statusDefinite (status this) \<longrightarrow> statusDefinite (status thisO))"
    using startWatching_status [of w "this\<lparr> conditionsMatch :=
             (if ''string'' = typeof_conditions conds then JStr ''all'' else JNull),
              conditions := conds, callbackTrue := cbTrue, callbackFalse := cbFalse,
              onEveryScrollEvent := every \<rparr>"]
    unfolding on_def by (auto split: if_splits)
  have e: "\<exists>thisA effsA retA.
        always w cbTrue this = Inr (thisA, effsA, retA)
        \<and> (status thisA = status this \<or> statusDefinite (status thisA))
        \<and> (statusDefinite (status this) \<longrightarrow> statusDefinite (status thisA))"
    using startWatching_status [of w "this\<lparr> conditionsMatch := JStr ''all'',
              conditions := CondVal (JStr ''all''), callbackTrue := cbTrue \<rparr>"]
    unfolding always_def by (auto split: if_splits)
  have f: "cancel w this = Inr (thisX, effsX) \<longrightarrow> status thisX = status this"
    by (auto simp: cancel_def split: if_splits)
  from a b c d e f show ?thesis by blast
qed

theorem C9_status_unset_then_definite_witness:
  "statusUnset (status demoWatcher)
   \<and> checkPosition demoWindow JUndefined demoWatcher
       = Inr (demoWatcher\<lparr> status := computeStatus (box 10 50 10 50) demoWindow,
                            conditionsMatch := JBool True \<rparr>,
              [CallTrue (JFun 1) JUndefined (computeStatus (box 10 50 10 50) demoWindow)])
   \<and> statusDefinite (computeStatus (box 10 50 10 50) demoWindow)
   \<and> cancel demoWindow
        (demoWatcher\<lparr> status := computeStatus (box 10 50 10 50) demoWindow,
                      conditionsMatch := JBool True \<rparr>)
       = Inr (demoWatcher\<lparr> status := computeStatus (box 10 50 10 50) demoWindow,
                            conditionsMatch := JBool True \<rparr>, [RemoveListeners])
   \<and> (\<exists>thisO effsO retO.
        on demoWindow (CondVal JUndefined) JUndefined JUndefined JUndefined
          (demoWatcher\<lparr> status := computeStatus (box 10 50 10 50) demoWindow,
                        conditionsMatch := JBool True \<rparr>) = Inr (thisO, effsO, retO)
        \<and> statusDefinite (status thisO))
   \<and> (\<exists>thisA effsA retA.
        always demoWindow (JFun 3)
          (demoWatcher\<lparr> status := computeStatus (box 10 50 10 50) demoWindow,
                        conditionsMatch := JBool True \<rparr>) = Inr (thisA, effsA, retA)
        \<and> statusDefinite (status thisA))"
proof -
  have b: "checkPosition demoWindow JUndefined demoWatcher
       = Inr (demoWatcher\<lparr> status := computeStatus (box 10 50 10 50) demoWindow,
                            conditionsMatch := JBool True \<rparr>,
              [CallTrue (JFun 1) JUndefined (computeStatus (box 10 50 10 50) demoWindow)])"
    by (simp add: demoWindow_def demoWatcher_def evals)
  have f: "cancel demoWindow
        (demoWatcher\<lparr> status := computeStatus (box 10 50 10 50) demoWindow,
                      conditionsMatch := JBool True \<rparr>)
       = Inr (demoWatcher\<lparr> status := computeStatus (box 10 50 10 50) demoWindow,
                            conditionsMatch := JBool True \<rparr>, [RemoveListeners])"
    by (simp add: cancel_def demoWindow_def windowWith_def)
  have u: "statusUnset (status demoWatcher)"
    using C9_status_unset_then_definite [of "Some 0" "CondObj [(''top'', JBool True)]" "JFun 1"
        JUndefined JUndefined]
    by (simp add: demoWatcher_def)
  have d: "statusDefinite (computeStatus (box 10 50 10 50) demoWindow)"
    using C9_status_unset_then_definite [where w = demoWindow and ev = JUndefined
        and this = demoWatcher
        and this' = "demoWatcher\<lparr> status := computeStatus (box 10 50 10 50) demoWindow,
                            conditionsMatch := JBool True \<rparr>"
        and effs = "[CallTrue (JFun 1) JUndefined (computeStatus (box 10 50 10 50) demoWindow)]"] b
    by simp
  from d C9_status_unset_then_definite [where w = demoWindow
        and this = "demoWatcher\<lparr> status := computeStatus (box 10 50 10 50) demoWindow,
                            conditionsMatch := JBool True \<rparr>"
        and conds = "CondVal JUndefined" and cbTrue = JUndefined and cbFalse = JUndefined
        and every = JUndefined]
  have o: "\<exists>thisO effsO retO.
        on demoWindow (CondVal JUndefined) JUndefined JUndefined JUndefined
          (demoWatcher\<lparr> status := computeStatus (box 10 50 10 50) demoWindow,
                        conditionsMatch := JBool True \<rparr>) = Inr (thisO, effsO, retO)
        \<and> statusDefinite (status thisO)"
    by simp blast
  from d C9_status_unset_then_definite [where w = demoWindow
        and this = "demoWatcher\<lparr> status := computeStatus (box 10 50 10 50) demoWindow,
                            conditionsMatch := JBool True \<rparr>"
        and cbTrue = "JFun 3"]
  have a: "\<exists>thisA effsA retA.
        always demoWindow (JFun 3)
          (demoWatcher\<lparr> status := computeStatus (box 10 50 10 50) demoWindow,
                        conditionsMatch := JBool True \<rparr>) = Inr (thisA, effsA, retA)
        \<and> statusDefinite (status thisA)"
    by simp blast
  from u b d f o a show ?thesis by blast
qed

end
